theory Spec2Isabelle
  imports
    Complex_Main
    "HOL-Library.Char_ord"
    "HOL-Library.List_Lexorder"
    "HOL-Library.Product_Lexorder"
    "HOL-Library.Multiset"
begin

section \<open>Post-processing of DayCent corn stover results: the data model\<close>

text \<open>
  The script \<^verbatim>\<open>Stover_postprocess.py\<close> is a straight-line pandas pipeline. A data frame
  with a fixed schema is a list of rows, one record per row with one field per column.
  A float64 value is a \<open>cell\<close>: a real number, or \<open>None\<close> for pandas' missing value NaN.
  Floating-point rounding and overflow are not part of the model: finite floats are
  reals. The county code \<open>fips\<close> and the year \<open>simyear\<close> are integers, the treatment
  \<open>stover_removal\<close> is a string, ordered as Python orders strings (lexicographically
  by character code).
\<close>

type_synonym cell = "real option"

text \<open>Arithmetic on float columns: NaN in either operand gives NaN.\<close>

definition fmul :: "cell \<Rightarrow> real \<Rightarrow> cell" where
  "fmul a c = (case a of None \<Rightarrow> None | Some x \<Rightarrow> Some (x * c))"

definition fsub :: "cell \<Rightarrow> cell \<Rightarrow> cell" where
  "fsub a b = (case a of None \<Rightarrow> None
               | Some x \<Rightarrow> (case b of None \<Rightarrow> None | Some y \<Rightarrow> Some (x - y)))"

text \<open>
  Float division does not raise on a zero divisor: it gives NaN for \<open>0 / 0\<close> and an
  infinity otherwise, whose sign depends on the sign of the float zero, which a real
  number does not have. The quotient column is the last one the script computes, so
  it gets a result type of its own.
\<close>

datatype quot = Quot real | QInf | QNaN

definition fdiv :: "cell \<Rightarrow> cell \<Rightarrow> quot" where
  "fdiv a b = (case a of None \<Rightarrow> QNaN
               | Some x \<Rightarrow> (case b of None \<Rightarrow> QNaN
                  | Some y \<Rightarrow> if y \<noteq> 0 then Quot (x / y) else if x = 0 then QNaN else QInf))"

datatype error = KeyError string | ValueError string

subsection \<open>constants.py\<close>

definition ha_per_ACRE :: real where "ha_per_ACRE = 0.404686"
definition kg_per_bu_CORN :: real where "kg_per_bu_CORN = 25.4012"
definition kg_per_bu_SOY :: real where "kg_per_bu_SOY = 27.2"
definition g_m2_to_Mg_ha :: real where "g_m2_to_Mg_ha = 0.01"
definition g_m2_to_kg_ha :: real where "g_m2_to_kg_ha = 10.0"

subsection \<open>The loaded tables\<close>

text \<open>
  \<^verbatim>\<open>pd.read_csv(..., usecols=[...])\<close> yields the columns below. Corn and soybean yields
  share the column name \<^verbatim>\<open>grainyield_bu_ac\<close>.
\<close>

record area_raw =
  a_fips :: int
  area_acres :: cell

record grain_raw =
  g_fips :: int
  g_stover_removal :: string
  g_simyear :: int
  grainyield_bu_ac :: cell

record stover_raw =
  sr_fips :: int
  sr_stover_removal :: string
  sr_simyear :: int
  stover_dryyield_kgha :: cell

record soc_raw =
  cr_fips :: int
  cr_stover_removal :: string
  cr_simyear :: int
  SOC_20cm_g_m2 :: cell

record n2o_raw =
  nr_fips :: int
  nr_stover_removal :: string
  nr_simyear :: int
  N2O_gN_m2 :: cell

subsection \<open>The tables after unit conversion\<close>

record area_row =
  ar_fips :: int
  area_ha :: cell

record corn_row =
  co_fips :: int
  co_stover_removal :: string
  co_simyear :: int
  corn_yield_Mg_ha :: cell

record soy_row =
  so_fips :: int
  so_stover_removal :: string
  so_simyear :: int
  soy_yield_Mg_ha :: cell

record stover_row =
  st_fips :: int
  st_stover_removal :: string
  st_simyear :: int
  stover_yield_Mg_ha :: cell

record soc_row =
  fips :: int
  stover_removal :: string
  simyear :: int
  SOC_MgC_ha :: cell

record n2o_row =
  n_fips :: int
  n_stover_removal :: string
  n_simyear :: int
  N2O_MgN_ha :: cell

section \<open>Unit conversions\<close>

text \<open>
  Each block of the script adds the column in the new unit and drops the column in
  the old one: row by row, the other columns are carried over.
\<close>

definition convert_area :: "area_raw list \<Rightarrow> area_row list" where
  "convert_area df =
     map (\<lambda>r. \<lparr>ar_fips = a_fips r, area_ha = fmul (area_acres r) ha_per_ACRE\<rparr>) df"

definition convert_corn :: "grain_raw list \<Rightarrow> corn_row list" where
  "convert_corn df =
     map (\<lambda>r. \<lparr>co_fips = g_fips r, co_stover_removal = g_stover_removal r,
               co_simyear = g_simyear r,
               corn_yield_Mg_ha =
                 fmul (grainyield_bu_ac r) ((kg_per_bu_CORN * 0.001) / ha_per_ACRE)\<rparr>) df"

definition convert_soy :: "grain_raw list \<Rightarrow> soy_row list" where
  "convert_soy df =
     map (\<lambda>r. \<lparr>so_fips = g_fips r, so_stover_removal = g_stover_removal r,
               so_simyear = g_simyear r,
               soy_yield_Mg_ha =
                 fmul (grainyield_bu_ac r) ((kg_per_bu_SOY * 0.001) / ha_per_ACRE)\<rparr>) df"

definition convert_stover :: "stover_raw list \<Rightarrow> stover_row list" where
  "convert_stover df =
     map (\<lambda>r. \<lparr>st_fips = sr_fips r, st_stover_removal = sr_stover_removal r,
               st_simyear = sr_simyear r,
               stover_yield_Mg_ha = fmul (stover_dryyield_kgha r) 0.001\<rparr>) df"

definition convert_soc :: "soc_raw list \<Rightarrow> soc_row list" where
  "convert_soc df =
     map (\<lambda>r. \<lparr>fips = cr_fips r, stover_removal = cr_stover_removal r,
               simyear = cr_simyear r,
               SOC_MgC_ha = fmul (SOC_20cm_g_m2 r) g_m2_to_Mg_ha\<rparr>) df"

definition convert_n2o :: "n2o_raw list \<Rightarrow> n2o_row list" where
  "convert_n2o df =
     map (\<lambda>r. \<lparr>n_fips = nr_fips r, n_stover_removal = nr_stover_removal r,
               n_simyear = nr_simyear r,
               N2O_MgN_ha = fmul (N2O_gN_m2 r) g_m2_to_Mg_ha\<rparr>) df"

section \<open>Mapping: the arguments handed to the choropleth renderer\<close>

text \<open>
  \<^verbatim>\<open>np.linspace(start, stop, num)\<close> as numpy defines it: \<open>num\<close> samples
  \<open>start + i * step\<close> with \<open>step = (stop - start) / (num - 1)\<close>, the last one set to
  \<open>stop\<close>; a negative \<open>num\<close> raises ValueError.
\<close>

definition linspace :: "real \<Rightarrow> real \<Rightarrow> int \<Rightarrow> error + real list" where
  "linspace start stop num =
     (if num < 0 then Inl (ValueError ''Number of samples must be non-negative'')
      else
        let dv = num - 1;
            delta = stop - start;
            y = map (\<lambda>i. if dv > 0 then real i * (delta / real_of_int dv) + start
                          else real i * delta + start) [0..<nat num]
        in Inr (if num > 1 then butlast y @ [stop] else y))"

definition scope :: "string list" where
  "scope = [''ND'', ''SD'', ''NE'', ''KS'', ''MO'', ''IA'', ''MN'', ''WI'', ''IL'', ''KY'',
            ''IN'', ''MI'', ''OH'', ''PA'', ''WV'', ''MD'', ''DE'', ''NY'', ''TN'', ''AR'',
            ''OK'', ''VA'', ''NC'']"

text \<open>
  What \<^verbatim>\<open>fips_mapping\<close> passes to \<^verbatim>\<open>ff.create_choropleth\<close>. The renderer and the
  matplotlib colour map are outside the script: the colour map is a parameter, and a
  colour of the custom scale is its three channels times 255 (the script formats them
  into an \<^verbatim>\<open>rgb(r,g,b)\<close> string).
\<close>

record 'd choropleth_args =
  arg_fips :: "int list"
  arg_values :: "'d list"
  binning_endpoints :: "real list"
  round_legend_values :: bool
  legend_title :: string
  title :: string
  arg_scope :: "string list option"
  state_outline :: bool
  colorscale :: "(real \<times> real \<times> real) list option"

definition fips_mapping ::
  "(real \<Rightarrow> real \<times> real \<times> real \<times> real) \<Rightarrow> int list \<Rightarrow> 'd list \<Rightarrow> string \<Rightarrow> string \<Rightarrow>
   real \<times> real \<times> int \<Rightarrow> bool \<Rightarrow> bool \<Rightarrow> error + 'd choropleth_args" where
  "fips_mapping cmap fips_ix data ttl legend_ttl linspacing divergent reverse =
     (case linspacing of (lo, hi, n) \<Rightarrow>
      (case linspace lo hi n of Inl e \<Rightarrow> Inl e
       | Inr bin_list \<Rightarrow>
         let rounding = (if hi < 10 then False else True);
             kw_scope = (if scope \<noteq> [] then Some scope else None)
         in if divergent then
              (case linspace 0 1 (n + 1) of Inl e \<Rightarrow> Inl e
               | Inr xs \<Rightarrow>
                 let custom_plotly_cmap =
                       map (\<lambda>x. case cmap x of (r, g, b, a) \<Rightarrow> (r * 255, g * 255, b * 255)) xs
                 in Inr \<lparr>arg_fips = fips_ix, arg_values = data, binning_endpoints = bin_list,
                         round_legend_values = rounding, legend_title = legend_ttl,
                         title = ttl, arg_scope = kw_scope, state_outline = True,
                         colorscale = Some (if reverse then rev custom_plotly_cmap
                                            else custom_plotly_cmap)\<rparr>)
            else
              Inr \<lparr>arg_fips = fips_ix, arg_values = data, binning_endpoints = bin_list,
                   round_legend_values = rounding, legend_title = legend_ttl,
                   title = ttl, arg_scope = kw_scope, state_outline = False,
                   colorscale = None\<rparr>))"

section \<open>Annual SOC differences\<close>

text \<open>
  \<^verbatim>\<open>sort_values(["fips", "stover_removal", "simyear"])\<close>: ascending, lexicographic on
  the three columns. Rows with equal keys keep their order (the loaded tables have
  no two rows with the same key).
\<close>

definition sort_values_soc :: "soc_row list \<Rightarrow> soc_row list" where
  "sort_values_soc df = sort_key (\<lambda>r. (fips r, stover_removal r, simyear r)) df"

text \<open>
  \<^verbatim>\<open>Series.diff()\<close>: the first entry is NaN, every other entry is the value minus the
  value of the row before it, whatever that row is.
\<close>

definition diff_col :: "cell list \<Rightarrow> cell list" where
  "diff_col vs = (case vs of [] \<Rightarrow> [] | v # rest \<Rightarrow> None # map2 fsub rest vs)"

record dsoc_row = soc_row +
  dSOC_MgC_ha :: cell

definition with_dSOC :: "soc_row \<Rightarrow> cell \<Rightarrow> dsoc_row" where
  "with_dSOC r d =
     \<lparr>fips = fips r, stover_removal = stover_removal r, simyear = simyear r,
      SOC_MgC_ha = SOC_MgC_ha r, dSOC_MgC_ha = d\<rparr>"

definition add_dSOC :: "soc_row list \<Rightarrow> dsoc_row list" where
  "add_dSOC df = map2 with_dSOC df (diff_col (map SOC_MgC_ha df))"

definition drop_2011 :: "dsoc_row list \<Rightarrow> dsoc_row list" where
  "drop_2011 df = filter (\<lambda>r. simyear r \<noteq> 2011) df"

text \<open>Lines 105 to 107 of the script, in order.\<close>

definition soc_differenced :: "soc_row list \<Rightarrow> dsoc_row list" where
  "soc_differenced df = drop_2011 (add_dSOC (sort_values_soc df))"

subsection \<open>Differencing within one group, as the specification words it\<close>

text \<open>
  The rows of one (fips, stover_removal) group in year order, and the table the
  specification describes for such a run: for every row but the first, the row with
  its value minus the value of the row before it in the run; the first row is left
  out, so a run of one row gives nothing.
\<close>

definition in_group :: "int \<Rightarrow> string \<Rightarrow> 'a soc_row_scheme \<Rightarrow> bool" where
  "in_group f t r = (fips r = f \<and> stover_removal r = t)"

definition group_rows :: "int \<Rightarrow> string \<Rightarrow> soc_row list \<Rightarrow> soc_row list" where
  "group_rows f t df = sort_key simyear (filter (in_group f t) df)"

fun group_diffs :: "soc_row list \<Rightarrow> dsoc_row list" where
  "group_diffs (a # b # rest) =
     with_dSOC b (fsub (SOC_MgC_ha b) (SOC_MgC_ha a)) # group_diffs (b # rest)"
| "group_diffs _ = []"

text \<open>
  The differenced column of a stretch of the sorted table, given the value of the
  row before the stretch.
\<close>

fun dchain :: "cell \<Rightarrow> soc_row list \<Rightarrow> dsoc_row list" where
  "dchain p [] = []"
| "dchain p (r # rs) = with_dSOC r (fsub (SOC_MgC_ha r) p) # dchain (SOC_MgC_ha r) rs"

section \<open>Aggregation\<close>

text \<open>
  \<^verbatim>\<open>groupby(["fips", "stover_removal"]).mean()\<close> on a table cut down to the two key
  columns and one value column: one row per key that occurs, keys ascending, the
  value the mean of the group's values that are not NaN (NaN when there is none).
\<close>

type_synonym key = "int \<times> string"

definition mean_skipna :: "cell list \<Rightarrow> cell" where
  "mean_skipna vs =
     (let xs = map the (filter (\<lambda>v. v \<noteq> None) vs)
      in if xs = [] then None else Some (sum_list xs / real (length xs)))"

definition groupby_mean :: "(key \<times> cell) list \<Rightarrow> (key \<times> cell) list" where
  "groupby_mean rows =
     map (\<lambda>k. (k, mean_skipna (map snd (filter (\<lambda>r. fst r = k) rows))))
         (sort (remdups (map fst rows)))"

definition aggregate_corn :: "corn_row list \<Rightarrow> (key \<times> cell) list" where
  "aggregate_corn df =
     groupby_mean (map (\<lambda>r. ((co_fips r, co_stover_removal r), corn_yield_Mg_ha r)) df)"

definition aggregate_soy :: "soy_row list \<Rightarrow> (key \<times> cell) list" where
  "aggregate_soy df =
     groupby_mean (map (\<lambda>r. ((so_fips r, so_stover_removal r), soy_yield_Mg_ha r)) df)"

definition aggregate_stover :: "stover_row list \<Rightarrow> (key \<times> cell) list" where
  "aggregate_stover df =
     groupby_mean (map (\<lambda>r. ((st_fips r, st_stover_removal r), stover_yield_Mg_ha r)) df)"

definition aggregate_soc :: "dsoc_row list \<Rightarrow> (key \<times> cell) list" where
  "aggregate_soc df =
     groupby_mean (map (\<lambda>r. ((fips r, stover_removal r), dSOC_MgC_ha r)) df)"

definition aggregate_n2o :: "n2o_row list \<Rightarrow> (key \<times> cell) list" where
  "aggregate_n2o df =
     groupby_mean (map (\<lambda>r. ((n_fips r, n_stover_removal r), N2O_MgN_ha r)) df)"

section \<open>Merging\<close>

text \<open>
  \<^verbatim>\<open>pd.merge(left, right, on=[...])\<close> is an inner join: every pair of a left and a
  right row with equal keys gives one row, in the order of the left table.
\<close>

definition merge_on :: "('k \<times> 'a) list \<Rightarrow> ('k \<times> 'b) list \<Rightarrow> ('k \<times> 'a \<times> 'b) list" where
  "merge_on left right =
     concat (map (\<lambda>l. map (\<lambda>r. (fst l, snd l, snd r)) (filter (\<lambda>r. fst r = fst l) right)) left)"

record merged_row =
  m_fips :: int
  m_stover_removal :: string
  m_corn_yield_Mg_ha :: cell
  m_soy_yield_Mg_ha :: cell
  m_stover_yield_Mg_ha :: cell
  m_dSOC_MgC_ha :: cell
  m_N2O_MgN_ha :: cell

text \<open>The four merges of lines 120 to 123 and the \<^verbatim>\<open>reset_index\<close> of line 124.\<close>

definition merge_all ::
  "(key \<times> cell) list \<Rightarrow> (key \<times> cell) list \<Rightarrow> (key \<times> cell) list \<Rightarrow> (key \<times> cell) list \<Rightarrow>
   (key \<times> cell) list \<Rightarrow> merged_row list" where
  "merge_all corn_df soy_df stover_df soc_df n2o_df =
     map (\<lambda>(k, (((c, s), st), d), n).
            \<lparr>m_fips = fst k, m_stover_removal = snd k, m_corn_yield_Mg_ha = c,
             m_soy_yield_Mg_ha = s, m_stover_yield_Mg_ha = st, m_dSOC_MgC_ha = d,
             m_N2O_MgN_ha = n\<rparr>)
         (merge_on (merge_on (merge_on (merge_on corn_df soy_df) stover_df) soc_df) n2o_df)"

section \<open>Pivot and the treatment-relative columns\<close>

datatype vcol = Corn_yield | Soy_yield | Stover_yield | DSOC | N2O

fun vcol_name :: "vcol \<Rightarrow> string" where
  "vcol_name Corn_yield = ''corn_yield_Mg_ha-1''"
| "vcol_name Soy_yield = ''soy_yield_Mg_ha-1''"
| "vcol_name Stover_yield = ''stover_yield_Mg_ha-1''"
| "vcol_name DSOC = ''dSOC_MgC_ha-1''"
| "vcol_name N2O = ''N2O_MgN_ha-1''"

fun vcol_get :: "vcol \<Rightarrow> merged_row \<Rightarrow> cell" where
  "vcol_get Corn_yield r = m_corn_yield_Mg_ha r"
| "vcol_get Soy_yield r = m_soy_yield_Mg_ha r"
| "vcol_get Stover_yield r = m_stover_yield_Mg_ha r"
| "vcol_get DSOC r = m_dSOC_MgC_ha r"
| "vcol_get N2O r = m_N2O_MgN_ha r"

text \<open>
  \<^verbatim>\<open>df.pivot(index='fips', columns='stover_removal')\<close>: one row per county code that
  occurs (ascending), one column per value column and treatment that occurs
  (ascending); the cell of a county and treatment with no row in \<open>df\<close> is NaN.
  Two rows with the same county and treatment raise ValueError. A column is a list
  aligned with the index.
\<close>

record pivoted =
  p_index :: "int list"
  p_treatments :: "string list"
  p_cells :: "vcol \<Rightarrow> string \<Rightarrow> cell list"

definition pivot_cell :: "merged_row list \<Rightarrow> vcol \<Rightarrow> string \<Rightarrow> int \<Rightarrow> cell" where
  "pivot_cell df c t f =
     (case find (\<lambda>r. m_fips r = f \<and> m_stover_removal r = t) df of
        None \<Rightarrow> None | Some r \<Rightarrow> vcol_get c r)"

definition pivot :: "merged_row list \<Rightarrow> error + pivoted" where
  "pivot df =
     (if \<not> distinct (map (\<lambda>r. (m_fips r, m_stover_removal r)) df)
      then Inl (ValueError ''Index contains duplicate entries, cannot reshape'')
      else let ix = sort (remdups (map m_fips df))
           in Inr \<lparr>p_index = ix,
                   p_treatments = sort (remdups (map m_stover_removal df)),
                   p_cells = (\<lambda>c t. map (pivot_cell df c t) ix)\<rparr>)"

text \<open>
  \<^verbatim>\<open>pivoted_df[c][t]\<close>: KeyError when the pivoted table has no column of that
  treatment (no row of \<open>df\<close> at all has it).
\<close>

definition getcol :: "pivoted \<Rightarrow> vcol \<Rightarrow> string \<Rightarrow> error + cell list" where
  "getcol p c t =
     (if p_treatments p = [] then Inl (KeyError (vcol_name c))
      else if t \<in> set (p_treatments p) then Inr (p_cells p c t)
      else Inl (KeyError t))"

definition ebind :: "error + 'a \<Rightarrow> ('a \<Rightarrow> error + 'b) \<Rightarrow> error + 'b" where
  "ebind m f = (case m of Inl e \<Rightarrow> Inl e | Inr x \<Rightarrow> f x)"

text \<open>One line of 135 to 140: the left operand is looked up first.\<close>

definition relative :: "pivoted \<Rightarrow> vcol \<Rightarrow> string \<Rightarrow> error + cell list" where
  "relative p c t =
     ebind (getcol p c t) (\<lambda>a. ebind (getcol p c ''G'') (\<lambda>b. Inr (map2 fsub a b)))"

record derived =
  d_pivoted :: pivoted
  dSOC_G25S_relative :: "cell list"
  dSOC_G50S_relative :: "cell list"
  dSOC_G75S_relative :: "cell list"
  dN2O_G25S_relative :: "cell list"
  dN2O_G50S_relative :: "cell list"
  dN2O_G75S_relative :: "cell list"
  dSOC_MgStover :: "quot list"

text \<open>Lines 135 to 141, in order; the first failing lookup ends the run.\<close>

definition add_relative :: "pivoted \<Rightarrow> error + derived" where
  "add_relative p =
     ebind (relative p DSOC ''G25S'') (\<lambda>s25.
     ebind (relative p DSOC ''G50S'') (\<lambda>s50.
     ebind (relative p DSOC ''G75S'') (\<lambda>s75.
     ebind (relative p N2O ''G25S'') (\<lambda>n25.
     ebind (relative p N2O ''G50S'') (\<lambda>n50.
     ebind (relative p N2O ''G75S'') (\<lambda>n75.
     ebind (getcol p Stover_yield ''G25S'') (\<lambda>st25.
       Inr \<lparr>d_pivoted = p,
            dSOC_G25S_relative = s25, dSOC_G50S_relative = s50, dSOC_G75S_relative = s75,
            dN2O_G25S_relative = n25, dN2O_G50S_relative = n50, dN2O_G75S_relative = n75,
            dSOC_MgStover = map2 fdiv s25 st25\<rparr>)))))))"

definition pivot_relative :: "merged_row list \<Rightarrow> error + derived" where
  "pivot_relative df = ebind (pivot df) add_relative"

subsection \<open>The whole run\<close>

text \<open>Lines 81 to 124: from the loaded tables to the merged table \<^verbatim>\<open>df\<close>.\<close>

definition merged_table ::
  "grain_raw list \<Rightarrow> grain_raw list \<Rightarrow> stover_raw list \<Rightarrow> soc_raw list \<Rightarrow> n2o_raw list \<Rightarrow>
   merged_row list" where
  "merged_table corn_df soy_df stover_df soc_df n2o_df =
     merge_all (aggregate_corn (convert_corn corn_df))
               (aggregate_soy (convert_soy soy_df))
               (aggregate_stover (convert_stover stover_df))
               (aggregate_soc (soc_differenced (convert_soc soc_df)))
               (aggregate_n2o (convert_n2o n2o_df))"

text \<open>Lines 81 to 141: the pivoted table with its derived columns, or the error raised.\<close>

definition postprocess ::
  "grain_raw list \<Rightarrow> grain_raw list \<Rightarrow> stover_raw list \<Rightarrow> soc_raw list \<Rightarrow> n2o_raw list \<Rightarrow>
   error + derived" where
  "postprocess corn_df soy_df stover_df soc_df n2o_df =
     pivot_relative (merged_table corn_df soy_df stover_df soc_df n2o_df)"

text \<open>The difference to the baseline of one pivoted cell.\<close>

definition rel_at :: "merged_row list \<Rightarrow> vcol \<Rightarrow> string \<Rightarrow> int \<Rightarrow> cell" where
  "rel_at df c t f = fsub (pivot_cell df c t f) (pivot_cell df c ''G'' f)"

text \<open>
  The seven derived columns at a county code, as \<^verbatim>\<open>pivoted_df.loc[f]\<close> reads them:
  the entries at the position of \<open>f\<close> in the index, none when \<open>f\<close> is no index label.
\<close>

definition derived_row ::
  "derived \<Rightarrow> int \<Rightarrow> (cell \<times> cell \<times> cell \<times> cell \<times> cell \<times> cell \<times> quot) option" where
  "derived_row d f =
     map_of (zip (p_index (d_pivoted d))
              (zip (dSOC_G25S_relative d) (zip (dSOC_G50S_relative d)
              (zip (dSOC_G75S_relative d) (zip (dN2O_G25S_relative d)
              (zip (dN2O_G50S_relative d) (zip (dN2O_G75S_relative d) (dSOC_MgStover d)))))))) f"

section \<open>Example tables\<close>

text \<open>
  The corn yields of the end-to-end scenario: county 19001, treatment G, years 2012
  to 2015.
\<close>

definition corn_example :: "grain_raw list" where
  "corn_example =
     [\<lparr>g_fips = 19001, g_stover_removal = ''G'', g_simyear = 2012, grainyield_bu_ac = Some 150\<rparr>,
      \<lparr>g_fips = 19001, g_stover_removal = ''G'', g_simyear = 2013, grainyield_bu_ac = Some 160\<rparr>,
      \<lparr>g_fips = 19001, g_stover_removal = ''G'', g_simyear = 2014, grainyield_bu_ac = Some 155\<rparr>,
      \<lparr>g_fips = 19001, g_stover_removal = ''G'', g_simyear = 2015, grainyield_bu_ac = Some 158\<rparr>]"


text \<open>
  Five aggregated tables: the key (19003, G) is in every table but the last, the key
  (19001, G) in all five.
\<close>

definition corn_agg_example :: "(key \<times> cell) list" where
  "corn_agg_example = [((19001, ''G''), Some 10), ((19003, ''G''), Some 11)]"

definition soy_agg_example :: "(key \<times> cell) list" where
  "soy_agg_example = [((19001, ''G''), Some 3), ((19003, ''G''), Some 4)]"

definition stover_agg_example :: "(key \<times> cell) list" where
  "stover_agg_example = [((19001, ''G''), Some 0), ((19003, ''G''), Some 0)]"

definition soc_agg_example :: "(key \<times> cell) list" where
  "soc_agg_example = [((19001, ''G''), Some 1), ((19003, ''G''), Some 2)]"

definition n2o_agg_example :: "(key \<times> cell) list" where
  "n2o_agg_example = [((19001, ''G''), Some 4)]"

text \<open>
  Merged tables. In \<open>no_baseline_example\<close> the only county, 19003, has every
  treatment but the baseline G; \<open>pivot_example\<close> adds county 19001 with all four
  treatments; \<open>pivot_example_full\<close> adds the baseline row of 19003 as well.
\<close>

definition mrow :: "int \<Rightarrow> string \<Rightarrow> real \<Rightarrow> real \<Rightarrow> real \<Rightarrow> merged_row" where
  "mrow f t st d n =
     \<lparr>m_fips = f, m_stover_removal = t, m_corn_yield_Mg_ha = Some 10,
      m_soy_yield_Mg_ha = Some 3, m_stover_yield_Mg_ha = Some st, m_dSOC_MgC_ha = Some d,
      m_N2O_MgN_ha = Some n\<rparr>"

definition no_baseline_example :: "merged_row list" where
  "no_baseline_example =
     [mrow 19003 ''G25S'' 2 1 5, mrow 19003 ''G50S'' 4 0 6, mrow 19003 ''G75S'' 6 (-1) 7]"

definition pivot_example :: "merged_row list" where
  "pivot_example =
     [mrow 19001 ''G'' 0 1 4, mrow 19001 ''G25S'' 2 (1/2) 5, mrow 19001 ''G50S'' 4 0 6,
      mrow 19001 ''G75S'' 6 (-1) 7] @ no_baseline_example"


text \<open>
  An SOC table, not in sorted order: the group (19001, G) has the years 2011 to 2013
  and the values 10, 12, 15, the group (19001, G25S) has the year 2012 only, and the
  group (19003, G) has the year 2011 only.
\<close>

definition srow :: "int \<Rightarrow> string \<Rightarrow> int \<Rightarrow> real \<Rightarrow> soc_row" where
  "srow f t y v = \<lparr>fips = f, stover_removal = t, simyear = y, SOC_MgC_ha = Some v\<rparr>"

definition soc_example :: "soc_row list" where
  "soc_example =
     [srow 19001 ''G25S'' 2012 20, srow 19001 ''G'' 2013 15, srow 19003 ''G'' 2011 30,
      srow 19001 ''G'' 2011 10, srow 19001 ''G'' 2012 12]"

section \<open>Properties of the choropleth arguments\<close>

lemma linspace_formula:
  assumes "2 \<le> n"
  shows "linspace lo hi n =
         Inr (map (\<lambda>i. lo + real i * ((hi - lo) / real_of_int (n - 1))) [0..<nat n])"
proof -
  let ?y = "map (\<lambda>i. real i * ((hi - lo) / real_of_int (n - 1)) + lo) [0..<nat n]"
  have ne: "?y \<noteq> []" using assms by simp
  have "last ?y = ?y ! (nat n - 1)" using ne by (simp add: last_conv_nth del: map_eq_conv)
  also have "\<dots> = real (nat n - 1) * ((hi - lo) / real_of_int (n - 1)) + lo"
    using assms by simp
  also have "real (nat n - 1) = real_of_int (n - 1)" using assms by simp
  also have "real_of_int (n - 1) * ((hi - lo) / real_of_int (n - 1)) + lo = hi"
    using assms by simp
  finally have "last ?y = hi" .
  then have "butlast ?y @ [hi] = ?y" using ne by (metis append_butlast_last_id)
  then show ?thesis using assms by (simp add: linspace_def Let_def add.commute)
qed

lemma linspace_ok: "0 \<le> n \<Longrightarrow> \<exists>ys. linspace lo hi n = Inr ys"
  by (simp add: linspace_def Let_def)

lemma fips_mapping_Inr:
  assumes "linspace lo hi n = Inr bins" and "0 \<le> n"
  shows "\<exists>c. fips_mapping cmap fx data ttl lt (lo, hi, n) dv rv = Inr c
             \<and> binning_endpoints c = bins \<and> round_legend_values c = (10 \<le> hi)"
proof -
  obtain xs where xs: "linspace 0 1 (n + 1) = Inr xs"
    using linspace_ok [of "n + 1" 0 1] assms(2) by auto
  show ?thesis
    using assms(1) xs by (cases dv) (auto simp add: fips_mapping_def Let_def)
qed

lemma linspace_formula0:
  assumes "0 \<le> n"
  shows "linspace lo hi n =
         Inr (map (\<lambda>i. lo + real i * ((hi - lo) / real_of_int (n - 1))) [0..<nat n])"
proof (cases "2 \<le> n")
  case True
  then show ?thesis by (rule linspace_formula)
next
  case False
  then consider "n = 0" | "n = 1" using assms by linarith
  then show ?thesis
    by cases (simp_all add: linspace_def Let_def)
qed

lemma fips_mapping_negative:
  "n < 0 \<Longrightarrow> fips_mapping cmap fx data ttl lt (lo, hi, n) dv rv
             = Inl (ValueError ''Number of samples must be non-negative'')"
  by (simp add: fips_mapping_def linspace_def)

text \<open>
  C8: for a bin count \<open>n\<close> that is not negative, \<^verbatim>\<open>fips_mapping\<close> hands the renderer
  \<open>n\<close> binning endpoints, the \<open>i\<close>-th being \<open>lo + i * (hi - lo) / (n - 1)\<close>: the
  first is the minimum, the last (of two or more) the maximum, and neighbours are
  \<open>(hi - lo) / (n - 1)\<close> apart (0.1 for (2, 4, 21)). The legend-rounding flag is true
  exactly when the maximum is at least 10.
\<close>

theorem fips_mapping_bins:
  assumes "0 \<le> n"
  shows "\<exists>c. fips_mapping cmap fx data ttl lt (lo, hi, n) dv rv = Inr c
             \<and> length (binning_endpoints c) = nat n
             \<and> (\<forall>i<nat n. binning_endpoints c ! i
                             = lo + real i * ((hi - lo) / real_of_int (n - 1)))
             \<and> (1 \<le> n \<longrightarrow> hd (binning_endpoints c) = lo)
             \<and> (2 \<le> n \<longrightarrow> last (binning_endpoints c) = hi)
             \<and> (\<forall>i. Suc i < nat n \<longrightarrow>
                   binning_endpoints c ! Suc i - binning_endpoints c ! i
                   = (hi - lo) / real_of_int (n - 1))
             \<and> round_legend_values c = (10 \<le> hi)"
proof -
  let ?step = "(hi - lo) / real_of_int (n - 1)"
  let ?bins = "map (\<lambda>i. lo + real i * ?step) [0..<nat n]"
  obtain c where c: "fips_mapping cmap fx data ttl lt (lo, hi, n) dv rv = Inr c"
    and b: "binning_endpoints c = ?bins" and r: "round_legend_values c = (10 \<le> hi)"
    using fips_mapping_Inr [OF linspace_formula0 [OF assms] assms] by blast
  have len: "length ?bins = nat n" by simp
  have nth: "\<forall>i<nat n. ?bins ! i = lo + real i * ?step" by simp
  have h: "1 \<le> n \<longrightarrow> hd ?bins = lo"
  proof
    assume "1 \<le> n"
    then have "?bins \<noteq> []" by simp
    then have "hd ?bins = ?bins ! 0" by (rule hd_conv_nth)
    also have "\<dots> = lo" using \<open>1 \<le> n\<close> by simp
    finally show "hd ?bins = lo" .
  qed
  have l: "2 \<le> n \<longrightarrow> last ?bins = hi"
  proof
    assume n2: "2 \<le> n"
    then have ne: "?bins \<noteq> []" by simp
    have "last ?bins = ?bins ! (nat n - 1)" using ne by (simp add: last_conv_nth)
    also have "\<dots> = lo + real (nat n - 1) * ?step" using n2 by simp
    also have "real (nat n - 1) = real_of_int (n - 1)" using n2 by simp
    also have "lo + real_of_int (n - 1) * ?step = hi" using n2 by simp
    finally show "last ?bins = hi" .
  qed
  have "lo + real (Suc i) * s - (lo + real i * s) = s" for i s
    by (simp add: distrib_right)
  then have st: "lo + real (Suc i) * ?step - (lo + real i * ?step) = ?step" for i .
  have d: "\<forall>i. Suc i < nat n \<longrightarrow> ?bins ! Suc i - ?bins ! i = ?step"
    using st by simp
  show ?thesis using c b r len nth h l d by (intro exI [of _ c]) simp
qed

theorem fips_mapping_bins_witness:
  "(0::int) \<le> 21 \<and>
   (\<exists>c. fips_mapping (\<lambda>x. (x, x, x, 1)) [19001] [Some (3::real)] ''t'' ''l'' (2, 4, 21)
           False False = Inr c
      \<and> binning_endpoints c
          = [2, 2.1, 2.2, 2.3, 2.4, 2.5, 2.6, 2.7, 2.8, 2.9, 3, 3.1, 3.2, 3.3, 3.4, 3.5,
             3.6, 3.7, 3.8, 3.9, 4]
      \<and> length (binning_endpoints c) = 21
      \<and> binning_endpoints c ! Suc 0 - binning_endpoints c ! 0 = 0.1
      \<and> \<not> round_legend_values c)"
  using fips_mapping_bins [of 21 "\<lambda>x. (x, x, x, 1)" "[19001]" "[Some (3::real)]"
                              "''t''" "''l''" 2 4 False False]
  by (simp add: fips_mapping_def linspace_def Let_def upt_conv_Cons)

text \<open>
  C9, as the script has it: with the binning (2, 4, 21) the legend values are not
  rounded, whatever the other arguments, because the maximum 4 is below 10; in
  general a call that returns has rounding switched off exactly when the maximum is
  below 10.
\<close>

theorem rounding_off_below_10:
  "(\<exists>c. fips_mapping cmap fx data ttl lt (2, 4, 21) dv rv = Inr c
        \<and> \<not> round_legend_values c)
   \<and> (\<forall>lo hi n c. fips_mapping cmap fx data ttl lt (lo, hi, n) dv rv = Inr c
          \<longrightarrow> (\<not> round_legend_values c) = (hi < 10))"
proof
  have "linspace 2 4 21 = Inr (map (\<lambda>i. 2 + real i * ((4 - 2) / real_of_int (21 - 1)))
                                   [0..<nat 21])"
    by (rule linspace_formula) simp
  from fips_mapping_Inr [OF this, of cmap fx data ttl lt dv rv]
  show "\<exists>c. fips_mapping cmap fx data ttl lt (2, 4, 21) dv rv = Inr c
            \<and> \<not> round_legend_values c"
    by auto
next
  show "\<forall>lo hi n c. fips_mapping cmap fx data ttl lt (lo, hi, n) dv rv = Inr c
          \<longrightarrow> (\<not> round_legend_values c) = (hi < 10)"
    by (auto simp add: fips_mapping_def Let_def split: sum.splits if_splits)
qed

theorem rounding_off_below_10_witness:
  "\<exists>c. fips_mapping (\<lambda>x. (x, x, x, 1)) [19001, 19003] [Some (3::real), None] ''t'' ''l''
          (-0.05, 0.05, 41) True False = Inr c
       \<and> (\<not> round_legend_values c) = ((0.05::real) < 10)"
proof -
  have n: "0 \<le> (41::int)" by simp
  obtain ys where ys: "linspace (-0.05) 0.05 41 = Inr ys"
    using linspace_ok [OF n] by blast
  from fips_mapping_Inr [OF ys n] obtain c where
    c: "fips_mapping (\<lambda>x. (x, x, x, 1)) [19001, 19003] [Some (3::real), None] ''t'' ''l''
          (-0.05, 0.05, 41) True False = Inr c"
    by blast
  show ?thesis
    using c rounding_off_below_10 [of "\<lambda>x. (x, x, x, 1)" "[19001, 19003]"
                                      "[Some (3::real), None]" "''t''" "''l''" True False]
    by blast
qed

text \<open>
  C9 as stated fails: in the binning scenario (2, 4, 21) the rounding flag handed to
  the renderer is false.
\<close>

theorem rounding_4_counterexample:
  "\<not> (\<exists>c. fips_mapping (\<lambda>x. (x, x, x, 1)) [19001] [Some (3::real)] ''t'' ''l'' (2, 4, 21)
            False False = Inr c
         \<and> round_legend_values c)"
  by (simp add: fips_mapping_def linspace_def Let_def)

section \<open>Properties of the unit conversions\<close>

lemma fmul_Some: "fmul (Some x) c = Some (x * c)"
  by (simp add: fmul_def)

lemma fmul_None: "fmul None c = None"
  by (simp add: fmul_def)

text \<open>
  C3: in each of the six converted tables the key columns are the columns of the
  loaded table, row for row and in the same order, and the value column in the new
  unit is the old value column times the factor composed from \<^verbatim>\<open>constants.py\<close>, row
  for row (a missing value stays missing). The old column is no field of the
  converted row type. Floats are reals here, so the equality is exact.
\<close>

theorem unit_conversion:
  "map ar_fips (convert_area area_df) = map a_fips area_df
   \<and> map area_ha (convert_area area_df) = map (\<lambda>r. fmul (area_acres r) 0.404686) area_df
   \<and> map co_fips (convert_corn corn_df) = map g_fips corn_df
   \<and> map co_stover_removal (convert_corn corn_df) = map g_stover_removal corn_df
   \<and> map co_simyear (convert_corn corn_df) = map g_simyear corn_df
   \<and> map corn_yield_Mg_ha (convert_corn corn_df)
       = map (\<lambda>r. fmul (grainyield_bu_ac r) (25.4012 * 0.001 / 0.404686)) corn_df
   \<and> map so_fips (convert_soy soy_df) = map g_fips soy_df
   \<and> map so_stover_removal (convert_soy soy_df) = map g_stover_removal soy_df
   \<and> map so_simyear (convert_soy soy_df) = map g_simyear soy_df
   \<and> map soy_yield_Mg_ha (convert_soy soy_df)
       = map (\<lambda>r. fmul (grainyield_bu_ac r) (27.2 * 0.001 / 0.404686)) soy_df
   \<and> map st_fips (convert_stover stover_df) = map sr_fips stover_df
   \<and> map st_stover_removal (convert_stover stover_df) = map sr_stover_removal stover_df
   \<and> map st_simyear (convert_stover stover_df) = map sr_simyear stover_df
   \<and> map stover_yield_Mg_ha (convert_stover stover_df)
       = map (\<lambda>r. fmul (stover_dryyield_kgha r) 0.001) stover_df
   \<and> map fips (convert_soc soc_df) = map cr_fips soc_df
   \<and> map stover_removal (convert_soc soc_df) = map cr_stover_removal soc_df
   \<and> map simyear (convert_soc soc_df) = map cr_simyear soc_df
   \<and> map SOC_MgC_ha (convert_soc soc_df) = map (\<lambda>r. fmul (SOC_20cm_g_m2 r) 0.01) soc_df
   \<and> map n_fips (convert_n2o n2o_df) = map nr_fips n2o_df
   \<and> map n_stover_removal (convert_n2o n2o_df) = map nr_stover_removal n2o_df
   \<and> map n_simyear (convert_n2o n2o_df) = map nr_simyear n2o_df
   \<and> map N2O_MgN_ha (convert_n2o n2o_df) = map (\<lambda>r. fmul (N2O_gN_m2 r) 0.01) n2o_df
   \<and> (\<forall>x c. fmul (Some x) c = Some (x * c)) \<and> (\<forall>c. fmul None c = None)"
  by (simp add: convert_area_def convert_corn_def convert_soy_def convert_stover_def
        convert_soc_def convert_n2o_def ha_per_ACRE_def kg_per_bu_CORN_def kg_per_bu_SOY_def
        g_m2_to_Mg_ha_def fmul_def comp_def)

theorem unit_conversion_witness:
  "map co_fips (convert_corn corn_example) = [19001, 19001, 19001, 19001]
   \<and> map co_stover_removal (convert_corn corn_example) = [''G'', ''G'', ''G'', ''G'']
   \<and> map co_simyear (convert_corn corn_example) = [2012, 2013, 2014, 2015]
   \<and> map corn_yield_Mg_ha (convert_corn corn_example)
       = [Some (150 * (25.4012 * 0.001 / 0.404686)), Some (160 * (25.4012 * 0.001 / 0.404686)),
          Some (155 * (25.4012 * 0.001 / 0.404686)), Some (158 * (25.4012 * 0.001 / 0.404686))]"
  using unit_conversion [where corn_df = corn_example]
  by (simp add: corn_example_def)

section \<open>Properties of the aggregation\<close>

lemma groupby_keys: "map fst (groupby_mean rows) = sort (remdups (map fst rows))"
  by (simp add: groupby_mean_def comp_def)

lemma groupby_member:
  "(k, v) \<in> set (groupby_mean rows) \<longleftrightarrow>
     k \<in> fst ` set rows \<and> v = mean_skipna (map snd (filter (\<lambda>r. fst r = k) rows))"
  by (auto simp add: groupby_mean_def)

lemma mset_map_filter_cong:
  "mset xs = mset ys \<Longrightarrow> mset (map f (filter P xs)) = mset (map f (filter P ys))"
  by (simp only: mset_map mset_filter)

lemma mean_skipna_mset:
  assumes "mset vs = mset ws"
  shows "mean_skipna vs = mean_skipna ws"
proof -
  let ?f = "\<lambda>zs. map the (filter (\<lambda>v. v \<noteq> None) zs)"
  have m: "mset (?f vs) = mset (?f ws)" using assms by (rule mset_map_filter_cong)
  have s: "sum_list (?f vs) = sum_list (?f ws)"
    using m by (metis sum_mset_sum_list)
  have l: "length (?f vs) = length (?f ws)"
    using m by (metis size_mset)
  have e: "(?f vs = []) = (?f ws = [])" using l by (metis length_0_conv)
  show ?thesis unfolding mean_skipna_def Let_def using s l e by simp
qed


lemma mean_skipna_four:
  "mean_skipna [Some a, Some b, Some c, Some d] = Some ((a + b + c + d) / 4)"
  by (simp add: mean_skipna_def Let_def)






section \<open>The end-to-end corn yield\<close>

lemma aggregate_corn_convert:
  "aggregate_corn (convert_corn df) =
     groupby_mean (map (\<lambda>r. ((g_fips r, g_stover_removal r),
                            fmul (grainyield_bu_ac r) ((kg_per_bu_CORN * 0.001) / ha_per_ACRE))) df)"
  by (simp add: aggregate_corn_def convert_corn_def comp_def)

text \<open>
  C6, with the value the script computes: when the corn rows of one county and
  treatment carry the yields 150, 160, 155 and 158 bu/acre, in any order and among
  any other rows, the aggregated table has exactly one row for that pair, its value
  is mean(150, 160, 155, 158) * 25.4012 * 0.001 / 0.404686, and that is 9.78 Mg/ha
  within 0.01.
\<close>

theorem corn_yield_scenario:
  assumes "mset (map grainyield_bu_ac
                  (filter (\<lambda>r. g_fips r = f \<and> g_stover_removal r = t) corn_df))
           = {#Some 150, Some 160, Some 155, Some 158#}"
  shows "\<exists>v. (\<forall>c. ((f, t), c) \<in> set (aggregate_corn (convert_corn corn_df)) \<longleftrightarrow> c = Some v)
            \<and> v = (150 + 160 + 155 + 158) / 4 * 25.4012 * 0.001 / 0.404686
            \<and> \<bar>v - 9.78\<bar> \<le> 0.01"
proof -
  let ?c = "(kg_per_bu_CORN * 0.001) / ha_per_ACRE"
  let ?proj = "\<lambda>r. ((g_fips r, g_stover_removal r), fmul (grainyield_bu_ac r) ?c)"
  let ?g = "filter (\<lambda>r. g_fips r = f \<and> g_stover_removal r = t) corn_df"
  let ?v = "(150 + 160 + 155 + 158) / 4 * 25.4012 * 0.001 / 0.404686 :: real"
  have grp: "map snd (filter (\<lambda>r. fst r = (f, t)) (map ?proj corn_df))
             = map (\<lambda>v. fmul v ?c) (map grainyield_bu_ac ?g)"
    by (simp add: filter_map comp_def)
  have "mset (map (\<lambda>v. fmul v ?c) (map grainyield_bu_ac ?g))
        = image_mset (\<lambda>v. fmul v ?c) {#Some 150, Some 160, Some 155, Some 158#}"
    using assms by (simp only: mset_map)
  also have "\<dots> = mset [Some (150 * ?c), Some (160 * ?c), Some (155 * ?c), Some (158 * ?c)]"
    by (simp add: fmul_Some)
  finally have "mean_skipna (map (\<lambda>v. fmul v ?c) (map grainyield_bu_ac ?g))
        = mean_skipna [Some (150 * ?c), Some (160 * ?c), Some (155 * ?c), Some (158 * ?c)]"
    by (rule mean_skipna_mset)
  also have "\<dots> = Some ((150 * ?c + 160 * ?c + 155 * ?c + 158 * ?c) / 4)"
    by (rule mean_skipna_four)
  also have "(150 * ?c + 160 * ?c + 155 * ?c + 158 * ?c) / 4 = ?v"
    by (simp add: kg_per_bu_CORN_def ha_per_ACRE_def)
  finally have mean: "mean_skipna (map snd (filter (\<lambda>r. fst r = (f, t)) (map ?proj corn_df)))
                      = Some ?v"
    using grp by simp
  have "?g \<noteq> []"
  proof
    assume "?g = []"
    then have "mset (map grainyield_bu_ac ?g) = {#}" by (simp only: list.map mset.simps)
    then show False using assms by (simp only:) simp
  qed
  then obtain r where "r \<in> set corn_df" "g_fips r = f" "g_stover_removal r = t"
    by (auto simp add: filter_empty_conv)
  then have key: "(f, t) \<in> fst ` set (map ?proj corn_df)" by force
  have "((f, t), c) \<in> set (aggregate_corn (convert_corn corn_df)) \<longleftrightarrow> c = Some ?v" for c
    unfolding aggregate_corn_convert groupby_member using key mean by auto
  moreover have "\<bar>?v - 9.78\<bar> \<le> 0.01" by simp
  ultimately show ?thesis by blast
qed

theorem corn_yield_scenario_witness:
  "mset (map grainyield_bu_ac
          (filter (\<lambda>r. g_fips r = 19001 \<and> g_stover_removal r = ''G'') corn_example))
     = {#Some 150, Some 160, Some 155, Some 158#}
   \<and> (\<exists>v. ((19001, ''G''), Some v) \<in> set (aggregate_corn (convert_corn corn_example))
          \<and> v = (150 + 160 + 155 + 158) / 4 * 25.4012 * 0.001 / 0.404686
          \<and> \<bar>v - 9.78\<bar> \<le> 0.01)"
proof -
  have h: "mset (map grainyield_bu_ac
          (filter (\<lambda>r. g_fips r = 19001 \<and> g_stover_removal r = ''G'') corn_example))
     = {#Some 150, Some 160, Some 155, Some 158#}"
    by (simp add: corn_example_def)
  show ?thesis using h corn_yield_scenario [OF h] by blast
qed

text \<open>
  C6 as stated fails: the aggregated corn yield of the scenario is not within 0.01
  of 9.99 Mg/ha.
\<close>

theorem corn_yield_999_counterexample:
  "\<not> (\<exists>v. ((19001, ''G''), Some v) \<in> set (aggregate_corn (convert_corn corn_example))
          \<and> \<bar>v - 9.99\<bar> \<le> 0.01)"
proof -
  have "aggregate_corn (convert_corn corn_example)
        = [((19001, ''G''), Some ((150 + 160 + 155 + 158) / 4 * 25.4012 * 0.001 / 0.404686))]"
    by code_simp
  then show ?thesis by simp
qed

section \<open>Properties of the merge\<close>

lemma merge_on_member:
  "(k, a, b) \<in> set (merge_on left right) \<longleftrightarrow> (k, a) \<in> set left \<and> (k, b) \<in> set right"
  by (force simp add: merge_on_def)

lemma merge_on_keys: "fst ` set (merge_on left right) = fst ` set left \<inter> fst ` set right"
proof (intro set_eqI iffI)
  fix k assume "k \<in> fst ` set (merge_on left right)"
  then obtain a b where "(k, a, b) \<in> set (merge_on left right)" by force
  then show "k \<in> fst ` set left \<inter> fst ` set right"
    unfolding merge_on_member by force
next
  fix k assume "k \<in> fst ` set left \<inter> fst ` set right"
  then obtain a b where "(k, a) \<in> set left" "(k, b) \<in> set right" by force
  then have "(k, a, b) \<in> set (merge_on left right)" by (simp add: merge_on_member)
  then show "k \<in> fst ` set (merge_on left right)" by force
qed

lemma merge_on_Cons:
  "merge_on (l # left) right =
     map (\<lambda>r. (fst l, snd l, snd r)) (filter (\<lambda>r. fst r = fst l) right) @ merge_on left right"
  by (simp add: merge_on_def)

lemma distinct_filter_key:
  "distinct (map fst right) \<Longrightarrow> length (filter (\<lambda>r. fst r = k) right) \<le> 1"
proof (induction right)
  case Nil
  then show ?case by simp
next
  case (Cons r right)
  show ?case
  proof (cases "fst r = k")
    case True
    then have "k \<notin> fst ` set right" using Cons.prems by auto
    then have "filter (\<lambda>r. fst r = k) right = []"
      by (auto simp add: filter_empty_conv)
    then show ?thesis using True by simp
  next
    case False
    then show ?thesis using Cons by simp
  qed
qed

lemma merge_on_distinct:
  assumes "distinct (map fst left)" and "distinct (map fst right)"
  shows "distinct (map fst (merge_on left right))"
  using assms(1)
proof (induction left)
  case Nil
  then show ?case by (simp add: merge_on_def)
next
  case (Cons l left)
  let ?m = "filter (\<lambda>r. fst r = fst l) right"
  have "length ?m \<le> 1" using assms(2) by (rule distinct_filter_key)
  then have d1: "distinct (map fst (map (\<lambda>r. (fst l, snd l, snd r)) ?m))"
    by (cases ?m) (auto simp add: le_Suc_eq)
  have d2: "distinct (map fst (merge_on left right))" using Cons by simp
  have "fst l \<notin> fst ` set (merge_on left right)"
    using Cons.prems by (auto simp add: merge_on_keys)
  then have d3: "set (map fst (map (\<lambda>r. (fst l, snd l, snd r)) ?m))
                 \<inter> set (map fst (merge_on left right)) = {}"
    by auto
  show ?case unfolding merge_on_Cons map_append using d1 d2 d3 by (simp only: distinct_append)
qed

lemma merge_all_member:
  "row \<in> set (merge_all corn_df soy_df stover_df soc_df n2o_df) \<longleftrightarrow>
     ((m_fips row, m_stover_removal row), m_corn_yield_Mg_ha row) \<in> set corn_df
     \<and> ((m_fips row, m_stover_removal row), m_soy_yield_Mg_ha row) \<in> set soy_df
     \<and> ((m_fips row, m_stover_removal row), m_stover_yield_Mg_ha row) \<in> set stover_df
     \<and> ((m_fips row, m_stover_removal row), m_dSOC_MgC_ha row) \<in> set soc_df
     \<and> ((m_fips row, m_stover_removal row), m_N2O_MgN_ha row) \<in> set n2o_df"
proof -
  let ?j = "merge_on (merge_on (merge_on (merge_on corn_df soy_df) stover_df) soc_df) n2o_df"
  let ?mk = "\<lambda>(k, (((c, s), st), d), n).
            \<lparr>m_fips = fst k, m_stover_removal = snd k, m_corn_yield_Mg_ha = c,
             m_soy_yield_Mg_ha = s, m_stover_yield_Mg_ha = st, m_dSOC_MgC_ha = d,
             m_N2O_MgN_ha = n\<rparr>"
  let ?un = "\<lambda>r. ((m_fips r, m_stover_removal r), (((m_corn_yield_Mg_ha r, m_soy_yield_Mg_ha r),
                   m_stover_yield_Mg_ha r), m_dSOC_MgC_ha r), m_N2O_MgN_ha r)"
  have inv: "?mk (?un r) = r" for r :: merged_row by simp
  have inv2: "?un (?mk x) = x" for x by (auto split: prod.splits)
  have "row \<in> set (merge_all corn_df soy_df stover_df soc_df n2o_df) \<longleftrightarrow> ?un row \<in> set ?j"
  proof
    assume "row \<in> set (merge_all corn_df soy_df stover_df soc_df n2o_df)"
    then obtain x where x: "x \<in> set ?j" "row = ?mk x" unfolding merge_all_def by auto
    then show "?un row \<in> set ?j" using inv2 [of x] by simp
  next
    assume "?un row \<in> set ?j"
    then have "?mk (?un row) \<in> set (merge_all corn_df soy_df stover_df soc_df n2o_df)"
      unfolding merge_all_def by (metis (no_types, lifting) image_eqI set_map)
    then show "row \<in> set (merge_all corn_df soy_df stover_df soc_df n2o_df)" by (simp only: inv)
  qed
  then show ?thesis by (simp add: merge_on_member)
qed

lemma merge_all_keys:
  "(\<lambda>r. (m_fips r, m_stover_removal r)) ` set (merge_all corn_df soy_df stover_df soc_df n2o_df)
   = fst ` set corn_df \<inter> fst ` set soy_df \<inter> fst ` set stover_df \<inter> fst ` set soc_df
     \<inter> fst ` set n2o_df"
proof -
  let ?j = "merge_on (merge_on (merge_on (merge_on corn_df soy_df) stover_df) soc_df) n2o_df"
  have "map (\<lambda>r. (m_fips r, m_stover_removal r)) (merge_all corn_df soy_df stover_df soc_df n2o_df)
        = map fst ?j"
    by (simp add: merge_all_def comp_def split_def)
  then have "(\<lambda>r. (m_fips r, m_stover_removal r)) ` set (merge_all corn_df soy_df stover_df soc_df n2o_df)
        = fst ` set ?j" by (metis set_map)
  then show ?thesis by (simp add: merge_on_keys)
qed

lemma merge_all_distinct:
  assumes "distinct (map fst corn_df)" "distinct (map fst soy_df)" "distinct (map fst stover_df)"
    "distinct (map fst soc_df)" "distinct (map fst n2o_df)"
  shows "distinct (map (\<lambda>r. (m_fips r, m_stover_removal r))
                     (merge_all corn_df soy_df stover_df soc_df n2o_df))"
proof -
  let ?j = "merge_on (merge_on (merge_on (merge_on corn_df soy_df) stover_df) soc_df) n2o_df"
  have "map (\<lambda>r. (m_fips r, m_stover_removal r)) (merge_all corn_df soy_df stover_df soc_df n2o_df)
        = map fst ?j"
    by (simp add: merge_all_def comp_def split_def)
  moreover have "distinct (map fst ?j)"
    using assms by (intro merge_on_distinct)
  ultimately show ?thesis by simp
qed

text \<open>
  In a run of the script the merged table has no key twice, so the pivot never
  raises for duplicate entries.
\<close>

lemma merged_table_distinct:
  "distinct (map (\<lambda>r. (m_fips r, m_stover_removal r))
               (merged_table corn_df soy_df stover_df soc_df n2o_df))"
  unfolding merged_table_def
  by (intro merge_all_distinct)
     (simp_all add: aggregate_corn_def aggregate_soy_def aggregate_stover_def
        aggregate_soc_def aggregate_n2o_def groupby_keys)

text \<open>
  C4: the merged table is the inner join of the five aggregated tables on
  (fips, stover_removal). Its keys are exactly the keys present in all five tables,
  so a key missing from any one of them (present in four, say) is not in the output;
  a row is in the output exactly when each of its five value columns is the value its
  key has in the corresponding input table; and when no input table has a key twice,
  neither has the output.
\<close>

theorem merge_is_inner_join:
  "(\<lambda>r. (m_fips r, m_stover_removal r)) ` set (merge_all corn_df soy_df stover_df soc_df n2o_df)
     = fst ` set corn_df \<inter> fst ` set soy_df \<inter> fst ` set stover_df \<inter> fst ` set soc_df
       \<inter> fst ` set n2o_df
   \<and> (\<forall>k. k \<notin> fst ` set corn_df \<or> k \<notin> fst ` set soy_df \<or> k \<notin> fst ` set stover_df
           \<or> k \<notin> fst ` set soc_df \<or> k \<notin> fst ` set n2o_df
        \<longrightarrow> k \<notin> (\<lambda>r. (m_fips r, m_stover_removal r))
                   ` set (merge_all corn_df soy_df stover_df soc_df n2o_df))
   \<and> (\<forall>row. row \<in> set (merge_all corn_df soy_df stover_df soc_df n2o_df) \<longleftrightarrow>
          ((m_fips row, m_stover_removal row), m_corn_yield_Mg_ha row) \<in> set corn_df
          \<and> ((m_fips row, m_stover_removal row), m_soy_yield_Mg_ha row) \<in> set soy_df
          \<and> ((m_fips row, m_stover_removal row), m_stover_yield_Mg_ha row) \<in> set stover_df
          \<and> ((m_fips row, m_stover_removal row), m_dSOC_MgC_ha row) \<in> set soc_df
          \<and> ((m_fips row, m_stover_removal row), m_N2O_MgN_ha row) \<in> set n2o_df)
   \<and> (distinct (map fst corn_df) \<and> distinct (map fst soy_df) \<and> distinct (map fst stover_df)
        \<and> distinct (map fst soc_df) \<and> distinct (map fst n2o_df)
      \<longrightarrow> distinct (map (\<lambda>r. (m_fips r, m_stover_removal r))
                         (merge_all corn_df soy_df stover_df soc_df n2o_df)))"
proof (intro conjI allI impI)
  show keys: "(\<lambda>r. (m_fips r, m_stover_removal r))
          ` set (merge_all corn_df soy_df stover_df soc_df n2o_df)
        = fst ` set corn_df \<inter> fst ` set soy_df \<inter> fst ` set stover_df \<inter> fst ` set soc_df
          \<inter> fst ` set n2o_df"
    by (rule merge_all_keys)
  show "k \<notin> (\<lambda>r. (m_fips r, m_stover_removal r))
              ` set (merge_all corn_df soy_df stover_df soc_df n2o_df)"
    if "k \<notin> fst ` set corn_df \<or> k \<notin> fst ` set soy_df \<or> k \<notin> fst ` set stover_df
        \<or> k \<notin> fst ` set soc_df \<or> k \<notin> fst ` set n2o_df" for k
    unfolding keys using that by blast
  show "row \<in> set (merge_all corn_df soy_df stover_df soc_df n2o_df) \<longleftrightarrow>
          ((m_fips row, m_stover_removal row), m_corn_yield_Mg_ha row) \<in> set corn_df
          \<and> ((m_fips row, m_stover_removal row), m_soy_yield_Mg_ha row) \<in> set soy_df
          \<and> ((m_fips row, m_stover_removal row), m_stover_yield_Mg_ha row) \<in> set stover_df
          \<and> ((m_fips row, m_stover_removal row), m_dSOC_MgC_ha row) \<in> set soc_df
          \<and> ((m_fips row, m_stover_removal row), m_N2O_MgN_ha row) \<in> set n2o_df" for row
    by (rule merge_all_member)
  show "distinct (map (\<lambda>r. (m_fips r, m_stover_removal r))
                      (merge_all corn_df soy_df stover_df soc_df n2o_df))"
    if "distinct (map fst corn_df) \<and> distinct (map fst soy_df) \<and> distinct (map fst stover_df)
        \<and> distinct (map fst soc_df) \<and> distinct (map fst n2o_df)"
    using that by (intro merge_all_distinct) simp_all
qed

theorem merge_is_inner_join_witness:
  "(19003, ''G'') \<in> fst ` set corn_agg_example \<inter> fst ` set soy_agg_example
                    \<inter> fst ` set stover_agg_example \<inter> fst ` set soc_agg_example
   \<and> (19003, ''G'') \<notin> fst ` set n2o_agg_example
   \<and> (19003, ''G'') \<notin> (\<lambda>r. (m_fips r, m_stover_removal r))
         ` set (merge_all corn_agg_example soy_agg_example stover_agg_example
                  soc_agg_example n2o_agg_example)
   \<and> distinct (map fst corn_agg_example) \<and> distinct (map fst soy_agg_example)
   \<and> distinct (map fst stover_agg_example) \<and> distinct (map fst soc_agg_example)
   \<and> distinct (map fst n2o_agg_example)
   \<and> distinct (map (\<lambda>r. (m_fips r, m_stover_removal r))
         (merge_all corn_agg_example soy_agg_example stover_agg_example
            soc_agg_example n2o_agg_example))
   \<and> \<lparr>m_fips = 19001, m_stover_removal = ''G'', m_corn_yield_Mg_ha = Some 10,
       m_soy_yield_Mg_ha = Some 3, m_stover_yield_Mg_ha = Some 0, m_dSOC_MgC_ha = Some 1,
       m_N2O_MgN_ha = Some 4\<rparr>
      \<in> set (merge_all corn_agg_example soy_agg_example stover_agg_example
                soc_agg_example n2o_agg_example)"
proof -
  let ?m = "merge_all corn_agg_example soy_agg_example stover_agg_example
              soc_agg_example n2o_agg_example"
  let ?row = "\<lparr>m_fips = 19001, m_stover_removal = ''G'', m_corn_yield_Mg_ha = Some 10,
       m_soy_yield_Mg_ha = Some 3, m_stover_yield_Mg_ha = Some 0, m_dSOC_MgC_ha = Some 1,
       m_N2O_MgN_ha = Some 4\<rparr>"
  note j = merge_is_inner_join [of corn_agg_example soy_agg_example stover_agg_example
                                   soc_agg_example n2o_agg_example]
  have four: "(19003, ''G'') \<in> fst ` set corn_agg_example \<inter> fst ` set soy_agg_example
                    \<inter> fst ` set stover_agg_example \<inter> fst ` set soc_agg_example"
    by (simp add: corn_agg_example_def soy_agg_example_def stover_agg_example_def
          soc_agg_example_def)
  have miss: "(19003, ''G'') \<notin> fst ` set n2o_agg_example"
    by (simp add: n2o_agg_example_def)
  have out: "(19003, ''G'') \<notin> (\<lambda>r. (m_fips r, m_stover_removal r)) ` set ?m"
    using j miss by blast
  have d: "distinct (map fst corn_agg_example)" "distinct (map fst soy_agg_example)"
    "distinct (map fst stover_agg_example)" "distinct (map fst soc_agg_example)"
    "distinct (map fst n2o_agg_example)"
    by (simp_all add: corn_agg_example_def soy_agg_example_def stover_agg_example_def
          soc_agg_example_def n2o_agg_example_def)
  have dm: "distinct (map (\<lambda>r. (m_fips r, m_stover_removal r)) ?m)"
    using j d by blast
  have "((m_fips ?row, m_stover_removal ?row), m_corn_yield_Mg_ha ?row) \<in> set corn_agg_example
        \<and> ((m_fips ?row, m_stover_removal ?row), m_soy_yield_Mg_ha ?row) \<in> set soy_agg_example
        \<and> ((m_fips ?row, m_stover_removal ?row), m_stover_yield_Mg_ha ?row)
            \<in> set stover_agg_example
        \<and> ((m_fips ?row, m_stover_removal ?row), m_dSOC_MgC_ha ?row) \<in> set soc_agg_example
        \<and> ((m_fips ?row, m_stover_removal ?row), m_N2O_MgN_ha ?row) \<in> set n2o_agg_example"
    by (simp add: corn_agg_example_def soy_agg_example_def stover_agg_example_def
          soc_agg_example_def n2o_agg_example_def)
  then have r: "?row \<in> set ?m" using j by blast
  show ?thesis using four miss out d dm r by (intro conjI)
qed

section \<open>Properties of the pivot and the relative columns\<close>

lemma ebind_Inr: "(ebind m f = Inr y) = (\<exists>x. m = Inr x \<and> f x = Inr y)"
  by (cases m) (simp_all add: ebind_def)

lemma getcol_Inr:
  "(getcol p c t = Inr col) = (t \<in> set (p_treatments p) \<and> col = p_cells p c t)"
  by (auto simp add: getcol_def)

lemma relative_Inr:
  "(relative p c t = Inr col) =
     (t \<in> set (p_treatments p) \<and> ''G'' \<in> set (p_treatments p)
      \<and> col = map2 fsub (p_cells p c t) (p_cells p c ''G''))"
  by (auto simp add: relative_def ebind_Inr getcol_Inr)

lemma add_relative_Inr:
  "(add_relative p = Inr d) =
     ({''G'', ''G25S'', ''G50S'', ''G75S''} \<subseteq> set (p_treatments p)
      \<and> d = \<lparr>d_pivoted = p,
              dSOC_G25S_relative = map2 fsub (p_cells p DSOC ''G25S'') (p_cells p DSOC ''G''),
              dSOC_G50S_relative = map2 fsub (p_cells p DSOC ''G50S'') (p_cells p DSOC ''G''),
              dSOC_G75S_relative = map2 fsub (p_cells p DSOC ''G75S'') (p_cells p DSOC ''G''),
              dN2O_G25S_relative = map2 fsub (p_cells p N2O ''G25S'') (p_cells p N2O ''G''),
              dN2O_G50S_relative = map2 fsub (p_cells p N2O ''G50S'') (p_cells p N2O ''G''),
              dN2O_G75S_relative = map2 fsub (p_cells p N2O ''G75S'') (p_cells p N2O ''G''),
              dSOC_MgStover = map2 fdiv (map2 fsub (p_cells p DSOC ''G25S'') (p_cells p DSOC ''G''))
                                        (p_cells p Stover_yield ''G25S'')\<rparr>)"
  unfolding add_relative_def ebind_Inr relative_Inr getcol_Inr by auto

lemma map2_same: "map2 f (map g xs) (map h xs) = map (\<lambda>x. f (g x) (h x)) xs"
  by (induction xs) simp_all

lemma zip_map_same: "zip (map g xs) (map h xs) = map (\<lambda>x. (g x, h x)) xs"
  by (induction xs) simp_all

lemma pivot_Inr:
  "(pivot df = Inr p) =
     (distinct (map (\<lambda>r. (m_fips r, m_stover_removal r)) df)
      \<and> p = \<lparr>p_index = sort (remdups (map m_fips df)),
              p_treatments = sort (remdups (map m_stover_removal df)),
              p_cells = (\<lambda>c t. map (pivot_cell df c t) (sort (remdups (map m_fips df))))\<rparr>)"
  by (auto simp add: pivot_def Let_def)


lemma pivot_relative_Inr:
  "(pivot_relative df = Inr d) =
     (distinct (map (\<lambda>r. (m_fips r, m_stover_removal r)) df)
      \<and> {''G'', ''G25S'', ''G50S'', ''G75S''} \<subseteq> m_stover_removal ` set df
      \<and> d = (let ix = sort (remdups (map m_fips df)) in
             \<lparr>d_pivoted = \<lparr>p_index = ix,
                           p_treatments = sort (remdups (map m_stover_removal df)),
                           p_cells = (\<lambda>c t. map (pivot_cell df c t) ix)\<rparr>,
              dSOC_G25S_relative = map (rel_at df DSOC ''G25S'') ix,
              dSOC_G50S_relative = map (rel_at df DSOC ''G50S'') ix,
              dSOC_G75S_relative = map (rel_at df DSOC ''G75S'') ix,
              dN2O_G25S_relative = map (rel_at df N2O ''G25S'') ix,
              dN2O_G50S_relative = map (rel_at df N2O ''G50S'') ix,
              dN2O_G75S_relative = map (rel_at df N2O ''G75S'') ix,
              dSOC_MgStover = map (\<lambda>f. fdiv (rel_at df DSOC ''G25S'' f)
                                            (pivot_cell df Stover_yield ''G25S'' f)) ix\<rparr>))"
  unfolding pivot_relative_def ebind_Inr pivot_Inr add_relative_Inr
  by (auto simp add: map2_same Let_def rel_at_def [abs_def])

text \<open>
  A run of the script raises nothing exactly when each of the four treatments is in
  the merged table.
\<close>

lemma postprocess_Inr:
  "(\<exists>d. postprocess corn_df soy_df stover_df soc_df n2o_df = Inr d) \<longleftrightarrow>
     {''G'', ''G25S'', ''G50S'', ''G75S''}
       \<subseteq> m_stover_removal ` set (merged_table corn_df soy_df stover_df soc_df n2o_df)"
  unfolding postprocess_def by (simp add: pivot_relative_Inr merged_table_distinct)

lemma derived_row_value:
  assumes "pivot_relative df = Inr d"
  shows "derived_row d f =
           (if f \<in> m_fips ` set df
            then Some (rel_at df DSOC ''G25S'' f, rel_at df DSOC ''G50S'' f,
                       rel_at df DSOC ''G75S'' f, rel_at df N2O ''G25S'' f,
                       rel_at df N2O ''G50S'' f, rel_at df N2O ''G75S'' f,
                       fdiv (rel_at df DSOC ''G25S'' f) (pivot_cell df Stover_yield ''G25S'' f))
            else None)"
  using assms unfolding pivot_relative_Inr
  by (simp add: derived_row_def Let_def zip_map_same map_of_zip_map)


lemma find_unique:
  assumes "distinct (map k xs)" and "r \<in> set xs"
  shows "find (\<lambda>x. k x = k r) xs = Some r"
  using assms by (induction xs) (auto simp add: rev_image_eqI)

lemma pivot_cell_row:
  assumes "distinct (map (\<lambda>r. (m_fips r, m_stover_removal r)) df)" and "r \<in> set df"
  shows "pivot_cell df c (m_stover_removal r) (m_fips r) = vcol_get c r"
proof -
  have "find (\<lambda>x. (m_fips x, m_stover_removal x) = (m_fips r, m_stover_removal r)) df = Some r"
    using assms by (rule find_unique)
  then show ?thesis by (simp add: pivot_cell_def)
qed






lemma fsub_None: "fsub a None = None" "fsub None b = None"
  by (simp_all add: fsub_def split: option.splits)


lemma pivot_example_ok:
  "distinct (map (\<lambda>r. (m_fips r, m_stover_removal r)) pivot_example)"
  "{''G'', ''G25S'', ''G50S'', ''G75S''} \<subseteq> m_stover_removal ` set pivot_example"
  "19003 \<in> m_fips ` set pivot_example"
  "\<forall>r\<in>set pivot_example. m_fips r = 19003 \<longrightarrow> m_stover_removal r \<noteq> ''G''"
  by (simp_all add: pivot_example_def no_baseline_example_def mrow_def)


text \<open>
  C5: when the merged table has no key twice and each of G, G25S, G50S and G75S
  occurs in it, the pivot and the seven assignments succeed, the index holds every
  county of the merged table, and at every county the derived columns are: for
  dSOC and for N2O and each of G25S, G50S, G75S the pivoted cell of that treatment
  minus the pivoted cell of the baseline G, and the dSOC difference at G25S divided
  by the stover yield at G25S. A pivoted cell is the aggregated value of the merged
  row of that county and treatment. Subtraction and division are those of the
  reals on present values (the divisor not zero).
\<close>

theorem relative_columns:
  assumes "distinct (map (\<lambda>r. (m_fips r, m_stover_removal r)) df)"
    and "{''G'', ''G25S'', ''G50S'', ''G75S''} \<subseteq> m_stover_removal ` set df"
  shows "\<exists>d. pivot_relative df = Inr d
     \<and> p_index (d_pivoted d) = sort (remdups (map m_fips df))
     \<and> (\<forall>f\<in>m_fips ` set df. derived_row d f = Some
           (fsub (pivot_cell df DSOC ''G25S'' f) (pivot_cell df DSOC ''G'' f),
            fsub (pivot_cell df DSOC ''G50S'' f) (pivot_cell df DSOC ''G'' f),
            fsub (pivot_cell df DSOC ''G75S'' f) (pivot_cell df DSOC ''G'' f),
            fsub (pivot_cell df N2O ''G25S'' f) (pivot_cell df N2O ''G'' f),
            fsub (pivot_cell df N2O ''G50S'' f) (pivot_cell df N2O ''G'' f),
            fsub (pivot_cell df N2O ''G75S'' f) (pivot_cell df N2O ''G'' f),
            fdiv (fsub (pivot_cell df DSOC ''G25S'' f) (pivot_cell df DSOC ''G'' f))
                 (pivot_cell df Stover_yield ''G25S'' f)))
     \<and> (\<forall>r\<in>set df. \<forall>c. pivot_cell df c (m_stover_removal r) (m_fips r) = vcol_get c r)
     \<and> (\<forall>x y. fsub (Some x) (Some y) = Some (x - y))
     \<and> (\<forall>x y. y \<noteq> 0 \<longrightarrow> fdiv (Some x) (Some y) = Quot (x / y))"
proof -
  obtain d where d: "pivot_relative df = Inr d"
    using assms by (simp add: pivot_relative_Inr)
  have ix: "p_index (d_pivoted d) = sort (remdups (map m_fips df))"
    using d by (simp add: pivot_relative_Inr Let_def)
  have row: "\<forall>f\<in>m_fips ` set df. derived_row d f = Some
           (fsub (pivot_cell df DSOC ''G25S'' f) (pivot_cell df DSOC ''G'' f),
            fsub (pivot_cell df DSOC ''G50S'' f) (pivot_cell df DSOC ''G'' f),
            fsub (pivot_cell df DSOC ''G75S'' f) (pivot_cell df DSOC ''G'' f),
            fsub (pivot_cell df N2O ''G25S'' f) (pivot_cell df N2O ''G'' f),
            fsub (pivot_cell df N2O ''G50S'' f) (pivot_cell df N2O ''G'' f),
            fsub (pivot_cell df N2O ''G75S'' f) (pivot_cell df N2O ''G'' f),
            fdiv (fsub (pivot_cell df DSOC ''G25S'' f) (pivot_cell df DSOC ''G'' f))
                 (pivot_cell df Stover_yield ''G25S'' f))"
    by (simp add: derived_row_value [OF d] rel_at_def)
  have cell: "\<forall>r\<in>set df. \<forall>c. pivot_cell df c (m_stover_removal r) (m_fips r) = vcol_get c r"
    using pivot_cell_row [OF assms(1)] by blast
  have ar: "\<forall>x y. fsub (Some x) (Some y) = Some (x - y)"
    "\<forall>x y. y \<noteq> 0 \<longrightarrow> fdiv (Some x) (Some y) = Quot (x / y)"
    by (simp_all add: fsub_def fdiv_def)
  show ?thesis using d ix row cell ar by (intro exI [of _ d] conjI)
qed

theorem relative_columns_witness:
  "distinct (map (\<lambda>r. (m_fips r, m_stover_removal r)) pivot_example)
   \<and> {''G'', ''G25S'', ''G50S'', ''G75S''} \<subseteq> m_stover_removal ` set pivot_example
   \<and> (\<exists>d. pivot_relative pivot_example = Inr d
          \<and> derived_row d 19001
              = Some (Some (- (1 / 2)), Some (- 1), Some (- 2), Some 1, Some 2, Some 3,
                      Quot (- (1 / 4))))"
proof -
  obtain d where d: "pivot_relative pivot_example = Inr d"
    and r: "\<forall>f\<in>m_fips ` set pivot_example. derived_row d f = Some
           (fsub (pivot_cell pivot_example DSOC ''G25S'' f) (pivot_cell pivot_example DSOC ''G'' f),
            fsub (pivot_cell pivot_example DSOC ''G50S'' f) (pivot_cell pivot_example DSOC ''G'' f),
            fsub (pivot_cell pivot_example DSOC ''G75S'' f) (pivot_cell pivot_example DSOC ''G'' f),
            fsub (pivot_cell pivot_example N2O ''G25S'' f) (pivot_cell pivot_example N2O ''G'' f),
            fsub (pivot_cell pivot_example N2O ''G50S'' f) (pivot_cell pivot_example N2O ''G'' f),
            fsub (pivot_cell pivot_example N2O ''G75S'' f) (pivot_cell pivot_example N2O ''G'' f),
            fdiv (fsub (pivot_cell pivot_example DSOC ''G25S'' f)
                       (pivot_cell pivot_example DSOC ''G'' f))
                 (pivot_cell pivot_example Stover_yield ''G25S'' f))"
    using relative_columns [OF pivot_example_ok(1,2)] by blast
  have "19001 \<in> m_fips ` set pivot_example"
    by (simp add: pivot_example_def mrow_def)
  with r have "derived_row d 19001
              = Some (Some (- (1 / 2)), Some (- 1), Some (- 2), Some 1, Some 2, Some 3,
                      Quot (- (1 / 4)))"
    by (simp add: pivot_cell_def pivot_example_def no_baseline_example_def mrow_def
          fsub_def fdiv_def)
  then show ?thesis using d pivot_example_ok(1,2) by blast
qed





section \<open>Properties of the SOC differencing\<close>

lemma in_group_with_dSOC [simp]: "in_group f t (with_dSOC r d) = in_group f t r"
  by (simp add: in_group_def with_dSOC_def)

lemma simyear_with_dSOC [simp]: "simyear (with_dSOC r d) = simyear r"
  by (simp add: with_dSOC_def)

lemma map2_dchain:
  "map2 with_dSOC rs (map2 fsub (map SOC_MgC_ha rs) (p # map SOC_MgC_ha rs)) = dchain p rs"
  by (induction rs arbitrary: p) simp_all

lemma add_dSOC_dchain: "add_dSOC df = dchain None df"
proof (cases df)
  case Nil
  then show ?thesis by (simp add: add_dSOC_def diff_col_def)
next
  case (Cons r rs)
  have "add_dSOC (r # rs) =
          with_dSOC r None
          # map2 with_dSOC rs (map2 fsub (map SOC_MgC_ha rs) (SOC_MgC_ha r # map SOC_MgC_ha rs))"
    by (simp add: add_dSOC_def diff_col_def)
  then show ?thesis using Cons by (simp add: map2_dchain fsub_None)
qed

lemma dchain_append:
  "dchain p (xs @ ys) = dchain p xs @ dchain (if xs = [] then p else SOC_MgC_ha (last xs)) ys"
  by (induction xs arbitrary: p) simp_all

lemma filter_dchain_out:
  "\<forall>r\<in>set xs. \<not> in_group f t r \<Longrightarrow> filter (in_group f t) (drop_2011 (dchain p xs)) = []"
  by (induction xs arbitrary: p) (simp_all add: drop_2011_def)

lemma filter_dchain_in:
  "\<forall>r\<in>set xs. in_group f t r \<and> simyear r \<noteq> 2011 \<Longrightarrow>
     filter (in_group f t) (drop_2011 (dchain p xs)) = dchain p xs"
  by (induction xs arbitrary: p) (simp_all add: drop_2011_def)

lemma drop_2011_append: "drop_2011 (xs @ ys) = drop_2011 xs @ drop_2011 ys"
  by (simp add: drop_2011_def)

lemma group_diffs_dchain: "group_diffs (g # G) = dchain (SOC_MgC_ha g) G"
  by (induction G arbitrary: g) simp_all

lemma sorted_three_way:
  fixes h :: "'a \<Rightarrow> 'b::linorder"
  assumes "sorted (map h xs)"
  shows "xs = filter (\<lambda>x. h x < c) xs @ filter (\<lambda>x. h x = c) xs @ filter (\<lambda>x. c < h x) xs"
  using assms
proof (induction xs)
  case Nil
  then show ?case by simp
next
  case (Cons x xs)
  then have ge: "\<forall>y\<in>set xs. h x \<le> h y" and IH: "xs = filter (\<lambda>x. h x < c) xs @ filter (\<lambda>x. h x = c) xs @ filter (\<lambda>x. c < h x) xs"
    by auto
  consider "h x < c" | "h x = c" | "c < h x" by (metis less_linear)
  then show ?case
  proof cases
    case 1
    then show ?thesis using IH by auto
  next
    case 2
    then have "filter (\<lambda>x. h x < c) xs = []" using ge by (auto simp add: filter_empty_conv)
    then show ?thesis using 2 IH by auto
  next
    case 3
    then have "filter (\<lambda>x. h x < c) xs = []" "filter (\<lambda>x. h x = c) xs = []"
      using ge by (auto simp add: filter_empty_conv)
    then show ?thesis using 3 IH by auto
  qed
qed

lemma key_mono:
  "(a, b, c) \<le> (a', b', c') \<Longrightarrow> (a, b) \<le> (a' :: int, b' :: string)"
  for c c' :: int
  by (auto simp add: less_eq_prod_def less_le)

lemma sorted_group_keys:
  "sorted (map (\<lambda>r. (fips r, stover_removal r)) (sort_values_soc df))"
proof -
  have "sorted (map (\<lambda>r. (fips r, stover_removal r, simyear r)) (sort_values_soc df))"
    by (simp add: sort_values_soc_def)
  then have "sorted_wrt (\<lambda>x y. (fips x, stover_removal x, simyear x)
                              \<le> (fips y, stover_removal y, simyear y)) (sort_values_soc df)"
    by (simp add: sorted_map)
  then have "sorted_wrt (\<lambda>x y. (fips x, stover_removal x) \<le> (fips y, stover_removal y))
               (sort_values_soc df)"
    by (rule sorted_wrt_mono_rel [rotated]) (rule key_mono)
  then show ?thesis by (simp add: sorted_map)
qed

lemma insort_key_group:
  assumes "\<forall>y\<in>set ys. in_group f t y" and "in_group f t x"
  shows "insort_key (\<lambda>r. (fips r, stover_removal r, simyear r)) x ys = insort_key simyear x ys"
  using assms by (induction ys) (auto simp add: in_group_def less_eq_prod_def)

lemma sort_key_group:
  assumes "\<forall>y\<in>set ys. in_group f t y"
  shows "sort_key (\<lambda>r. (fips r, stover_removal r, simyear r)) ys = sort_key simyear ys"
  using assms
proof (induction ys)
  case Nil
  then show ?case by simp
next
  case (Cons y ys)
  then have "sort_key (\<lambda>r. (fips r, stover_removal r, simyear r)) ys = sort_key simyear ys"
    by simp
  moreover have "\<forall>z\<in>set (sort_key simyear ys). in_group f t z" using Cons.prems by simp
  ultimately show ?case using Cons.prems by (simp add: insort_key_group [where f = f and t = t])
qed

lemma filter_sorted_group:
  "filter (in_group f t) (sort_values_soc df) = group_rows f t df"
proof -
  have "filter (in_group f t) (sort_values_soc df)
        = sort_key (\<lambda>r. (fips r, stover_removal r, simyear r)) (filter (in_group f t) df)"
    by (simp add: sort_values_soc_def filter_sort)
  also have "\<dots> = sort_key simyear (filter (in_group f t) df)"
    by (rule sort_key_group [where f = f and t = t]) simp
  finally show ?thesis by (simp add: group_rows_def)
qed

lemma soc_differenced_group:
  assumes "group_rows f t df = [] \<or>
           (\<exists>g G. group_rows f t df = g # G \<and> simyear g = 2011 \<and> (\<forall>r\<in>set G. simyear r \<noteq> 2011))"
  shows "filter (in_group f t) (soc_differenced df) = group_diffs (group_rows f t df)"
proof -
  let ?S = "sort_values_soc df"
  let ?gk = "\<lambda>r::soc_row. (fips r, stover_removal r)"
  let ?A = "filter (\<lambda>x. ?gk x < (f, t)) ?S"
  let ?B = "filter (\<lambda>x. (f, t) < ?gk x) ?S"
  let ?G = "group_rows f t df"
  have eq: "(\<lambda>x. ?gk x = (f, t)) = in_group f t" by (auto simp add: in_group_def)
  have split: "?S = ?A @ ?G @ ?B"
    using sorted_three_way [OF sorted_group_keys, of df "(f, t)"]
    unfolding eq filter_sorted_group .
  have A: "\<forall>r\<in>set ?A. \<not> in_group f t r" and B: "\<forall>r\<in>set ?B. \<not> in_group f t r"
    by (auto simp add: in_group_def)
  have Gin: "\<forall>r\<in>set ?G. in_group f t r" by (simp add: group_rows_def)
  let ?p = "if ?A = [] then None else SOC_MgC_ha (last ?A)"
  let ?q = "if ?G = [] then ?p else SOC_MgC_ha (last ?G)"
  have "soc_differenced df = drop_2011 (dchain None (?A @ ?G @ ?B))"
    using split by (simp add: soc_differenced_def add_dSOC_dchain)
  also have "\<dots> = drop_2011 (dchain None ?A) @ drop_2011 (dchain ?p ?G) @ drop_2011 (dchain ?q ?B)"
    by (simp only: dchain_append drop_2011_append)
  finally have "filter (in_group f t) (soc_differenced df)
                = filter (in_group f t) (drop_2011 (dchain ?p ?G))"
    using filter_dchain_out [OF A] filter_dchain_out [OF B] by simp
  also have "\<dots> = group_diffs ?G"
  proof (cases "?G = []")
    case True
    then show ?thesis by (simp add: drop_2011_def)
  next
    case False
    then obtain g G where g: "?G = g # G" "simyear g = 2011" "\<forall>r\<in>set G. simyear r \<noteq> 2011"
      using assms by blast
    have "\<forall>r\<in>set G. in_group f t r \<and> simyear r \<noteq> 2011" using Gin g by simp
    then have "filter (in_group f t) (drop_2011 (dchain (SOC_MgC_ha g) G)) = dchain (SOC_MgC_ha g) G"
      by (rule filter_dchain_in)
    then show ?thesis using g by (simp add: drop_2011_def group_diffs_dchain)
  qed
  finally show ?thesis .
qed





lemma soc_example_sorted:
  "sort_values_soc soc_example
   = [srow 19001 ''G'' 2011 10, srow 19001 ''G'' 2012 12, srow 19001 ''G'' 2013 15,
      srow 19001 ''G25S'' 2012 20, srow 19003 ''G'' 2011 30]"
  by code_simp

lemma soc_example_differenced:
  "soc_differenced soc_example
   = [with_dSOC (srow 19001 ''G'' 2012 12) (Some 2), with_dSOC (srow 19001 ''G'' 2013 15) (Some 3),
      with_dSOC (srow 19001 ''G25S'' 2012 20) (Some 5)]"
  by code_simp

lemma soc_example_groups:
  "group_rows 19001 ''G'' soc_example
   = [srow 19001 ''G'' 2011 10, srow 19001 ''G'' 2012 12, srow 19001 ''G'' 2013 15]"
  "group_rows 19001 ''G25S'' soc_example = [srow 19001 ''G25S'' 2012 20]"
  "group_rows 19003 ''G'' soc_example = [srow 19003 ''G'' 2011 30]"
  by code_simp+





text \<open>
  C2: in any table in which a group has the years 2011, 2012, 2013 with the values
  10, 12, 15, the differenced rows of that group are (2012, 2) and (2013, 3), and
  no row of the differenced table has the year 2011.
\<close>

theorem differencing_three_years:
  assumes "map (\<lambda>r. (simyear r, SOC_MgC_ha r)) (group_rows f t df)
           = [(2011, Some 10), (2012, Some 12), (2013, Some 15)]"
  shows "map (\<lambda>r. (simyear r, dSOC_MgC_ha r)) (filter (in_group f t) (soc_differenced df))
           = [(2012, Some 2), (2013, Some 3)]
         \<and> (\<forall>r\<in>set (soc_differenced df). simyear r \<noteq> 2011)"
proof -
  obtain a b c where G: "group_rows f t df = [a, b, c]"
    and a: "simyear a = 2011" "SOC_MgC_ha a = Some 10"
    and b: "simyear b = 2012" "SOC_MgC_ha b = Some 12"
    and c: "simyear c = 2013" "SOC_MgC_ha c = Some 15"
    using assms by auto
  have "group_rows f t df = [] \<or>
        (\<exists>g G. group_rows f t df = g # G \<and> simyear g = 2011 \<and> (\<forall>r\<in>set G. simyear r \<noteq> 2011))"
    using G a b c by simp
  then have "filter (in_group f t) (soc_differenced df) = group_diffs [a, b, c]"
    unfolding G [symmetric] by (rule soc_differenced_group)
  then have "map (\<lambda>r. (simyear r, dSOC_MgC_ha r)) (filter (in_group f t) (soc_differenced df))
           = [(2012, Some 2), (2013, Some 3)]"
    using a b c by (simp add: with_dSOC_def fsub_def)
  moreover have "\<forall>r\<in>set (soc_differenced df). simyear r \<noteq> 2011"
    by (simp add: soc_differenced_def drop_2011_def)
  ultimately show ?thesis by simp
qed

theorem differencing_three_years_witness:
  "map (\<lambda>r. (simyear r, SOC_MgC_ha r)) (group_rows 19001 ''G'' soc_example)
           = [(2011, Some 10), (2012, Some 12), (2013, Some 15)]
   \<and> map (\<lambda>r. (simyear r, dSOC_MgC_ha r))
         (filter (in_group 19001 ''G'') (soc_differenced soc_example))
       = [(2012, Some 2), (2013, Some 3)]
   \<and> map simyear (soc_differenced soc_example) = [2012, 2013, 2012]"
proof -
  have h: "map (\<lambda>r. (simyear r, SOC_MgC_ha r)) (group_rows 19001 ''G'' soc_example)
           = [(2011, Some 10), (2012, Some 12), (2013, Some 15)]"
    by (simp add: soc_example_groups srow_def)
  have y: "map simyear (soc_differenced soc_example) = [2012, 2013, 2012]"
    by (simp add: soc_example_differenced srow_def)
  show ?thesis using h differencing_three_years [OF h] y by blast
qed

end
